theory Spec2Isabelle
  imports Main
begin

section \<open>Data model of hs\_access\_control/models.py\<close>

text \<open>
  Privilege codes are the integers of class PrivilegeCodes: a lower number is a
  stronger privilege. The privilege column is an IntegerField, so a stored privilege
  and the privilege argument of every method is an \<open>int\<close>.
\<close>

definition OWNER :: int where "OWNER = 1"
definition CHANGE :: int where "CHANGE = 2"
definition VIEW :: int where "VIEW = 3"
definition NONE :: int where "NONE = 4"

lemmas PrivilegeCodes = OWNER_def CHANGE_def VIEW_def NONE_def

datatype CommandCodes = CHECK | DO

text \<open>
  The exceptions a method can leave with. PermissionDenied carries its message.
  DoesNotExist and MultipleObjectsReturned are what the query method get raises,
  FieldError is what the query builder raises for a keyword that is no field of the model.
\<close>

datatype error =
    PermissionDenied string
  | DoesNotExist
  | MultipleObjectsReturned
  | FieldError

text \<open>
  Users, groups and resources are referred to by primary key. Of a user the access
  control code reads the two flags only.
\<close>

record User =
  is_active :: bool
  is_superuser :: bool

record GroupAccess =
  g_active :: bool
  g_discoverable :: bool
  g_public :: bool
  g_shareable :: bool

record ResourceAccess =
  r_active :: bool
  r_discoverable :: bool
  r_public :: bool
  r_shareable :: bool
  r_published :: bool
  r_immutable :: bool

text \<open>
  The three privilege relations. Each model class declares every foreign key twice
  (user and usernew, group and groupnew, resource and resourcenew, grantor and
  grantornew): the first of a pair points at the access object (UserAccess, GroupAccess,
  ResourceAccess), the second at the object it protects (User, Group, BaseResource). The
  methods use either name of a pair for the same principal, always passing the protected
  object (share\_resource\_with\_user looks a record up by grantor,
  share\_group\_with\_user by grantornew, both with self.user). The embedding therefore
  keeps one field per pair and identifies an access object with the object it protects.
  The grantor is an option: the column grantornew is nullable, and an undo called
  without a grantor queries with the grantor None, which selects the rows whose grantor
  is NULL. The timestamp is not read by any method and is left out.
\<close>

record UserGroupPrivilege =
  ugp_privilege :: int
  ugp_user :: nat
  ugp_group :: nat
  ugp_grantor :: "nat option"

record UserResourcePrivilege =
  urp_privilege :: int
  urp_user :: nat
  urp_resource :: nat
  urp_grantor :: "nat option"

record GroupResourcePrivilege =
  grp_privilege :: int
  grp_group :: nat
  grp_resource :: nat
  grp_grantor :: "nat option"

text \<open>
  The database: the flags of every user, group and resource, and the rows of the three
  privilege tables. A method that raises has written nothing (it raises before its
  first write, or inside transaction.atomic, which rolls back), so a result \<open>Inl e\<close>
  means that the database is still the one the method was called on.
\<close>

record db =
  users :: "nat \<Rightarrow> User"
  gaccess :: "nat \<Rightarrow> GroupAccess"
  raccess :: "nat \<Rightarrow> ResourceAccess"
  ugp :: "UserGroupPrivilege list"
  urp :: "UserResourcePrivilege list"
  grp :: "GroupResourcePrivilege list"

section \<open>Query helpers\<close>

text \<open>aggregate(models.Min('privilege')): None over no rows.\<close>

fun aggregate_Min :: "int list \<Rightarrow> int option" where
  "aggregate_Min [] = None"
| "aggregate_Min (x # xs) = Some (fold min xs x)"

text \<open>QuerySet.get: exactly one row, or DoesNotExist, or MultipleObjectsReturned.\<close>

fun get_one :: "'a list \<Rightarrow> error + 'a" where
  "get_one [] = Inl DoesNotExist"
| "get_one [x] = Inr x"
| "get_one (x # y # zs) = Inl MultipleObjectsReturned"

section \<open>ResourceAccess: privilege resolution\<close>

definition get_combined_privilege :: "db \<Rightarrow> nat \<Rightarrow> nat \<Rightarrow> int" where
  "get_combined_privilege s this_resource this_user =
     (if is_superuser (users s this_user) then OWNER
      else
        let user_priv = aggregate_Min
              [urp_privilege x. x \<leftarrow> urp s,
                 urp_user x = this_user \<and> is_active (users s (urp_user x))
                 \<and> urp_resource x = this_resource];
            response1 = (case user_priv of None \<Rightarrow> NONE | Some v \<Rightarrow> v);
            group_priv = aggregate_Min
              [grp_privilege x. x \<leftarrow> grp s, y \<leftarrow> ugp s,
                 grp_resource x = this_resource \<and> g_active (gaccess s (grp_group x))
                 \<and> ugp_group y = grp_group x \<and> ugp_user y = this_user
                 \<and> is_active (users s (ugp_user y))];
            response2 = (case group_priv of None \<Rightarrow> NONE | Some v \<Rightarrow> v)
        in min response1 response2)"

definition get_effective_privilege :: "db \<Rightarrow> nat \<Rightarrow> nat \<Rightarrow> int" where
  "get_effective_privilege s this_resource this_user =
     (let user_priv = get_combined_privilege s this_resource this_user;
          user_priv = (if r_immutable (raccess s this_resource)
                       then max user_priv VIEW else user_priv);
          user_priv = (if r_public (raccess s this_resource)
                       then min user_priv VIEW else user_priv)
      in user_priv)"

text \<open>
  ResourceAccess.get\_number\_of\_owners counts get\_owners(), a query without
  distinct(): one row per OWNER record. GroupAccess.get\_number\_of\_owners counts a
  query with distinct(): one row per owning user.
\<close>

definition r_get_number_of_owners :: "db \<Rightarrow> nat \<Rightarrow> nat" where
  "r_get_number_of_owners s this_resource =
     length [urp_user x. x \<leftarrow> urp s,
               urp_privilege x = OWNER \<and> urp_resource x = this_resource]"

definition g_get_number_of_owners :: "db \<Rightarrow> nat \<Rightarrow> nat" where
  "g_get_number_of_owners s this_group =
     length (remdups [ugp_user x. x \<leftarrow> ugp s,
               ugp_group x = this_group \<and> ugp_privilege x = OWNER])"

text \<open>GroupAccess.members and ResourceAccess.holding\_users, both distinct().\<close>

definition members :: "db \<Rightarrow> nat \<Rightarrow> nat list" where
  "members s this_group = remdups [ugp_user x. x \<leftarrow> ugp s, ugp_group x = this_group]"

definition holding_users :: "db \<Rightarrow> nat \<Rightarrow> nat list" where
  "holding_users s this_resource =
     remdups [urp_user x. x \<leftarrow> urp s, urp_resource x = this_resource]"



section \<open>UserAccess: access checks\<close>

definition owns_group :: "db \<Rightarrow> nat \<Rightarrow> nat \<Rightarrow> bool" where
  "owns_group s self this_group =
     (if \<not> g_active (gaccess s this_group) then False
      else if [x \<leftarrow> ugp s. ugp_group x = this_group \<and> ugp_privilege x = OWNER
                 \<and> ugp_user x = self] \<noteq> [] then True
      else False)"

definition owns_resource :: "db \<Rightarrow> nat \<Rightarrow> nat \<Rightarrow> bool" where
  "owns_resource s self this_resource =
     (if [x \<leftarrow> urp s. urp_resource x = this_resource \<and> urp_privilege x = OWNER
            \<and> urp_user x = self] \<noteq> [] then True
      else False)"







definition can_share_group :: "db \<Rightarrow> nat \<Rightarrow> nat \<Rightarrow> int \<Rightarrow> bool" where
  "can_share_group s self this_group this_privilege =
     (let access_group = gaccess s this_group in
      if \<not> is_active (users s self) then False
      else if is_superuser (users s self) then True
      else if \<not> owns_group s self this_group \<and> \<not> g_shareable access_group then False
      else if [x \<leftarrow> ugp s. ugp_group x = this_group \<and> ugp_user x = self
                 \<and> ugp_privilege x \<le> this_privilege] \<noteq> [] then True
      else False)"





definition can_share_resource :: "db \<Rightarrow> nat \<Rightarrow> nat \<Rightarrow> int \<Rightarrow> bool" where
  "can_share_resource s self this_resource this_privilege =
     (let access_resource = raccess s this_resource in
      if \<not> is_active (users s self) then False
      else
        let whom_priv = get_combined_privilege s this_resource self in
        if \<not> (is_superuser (users s self) \<or> whom_priv = OWNER
              \<or> r_shareable access_resource) then False
        else if whom_priv > VIEW then False
        else if whom_priv > this_privilege then False
        else True)"


section \<open>UserAccess: sharing a group with a user\<close>

text \<open>
  get\_or\_create looks the row up with get and creates it on DoesNotExist; save writes
  a changed row back in place of the one that was read.
\<close>

definition ugp_get_or_create ::
  "db \<Rightarrow> nat \<Rightarrow> nat \<Rightarrow> nat option \<Rightarrow> int \<Rightarrow> error + UserGroupPrivilege \<times> bool \<times> db" where
  "ugp_get_or_create s this_group this_user this_grantor this_privilege =
     (case get_one [x \<leftarrow> ugp s. ugp_group x = this_group \<and> ugp_user x = this_user
                       \<and> ugp_grantor x = this_grantor] of
        Inr record \<Rightarrow> Inr (record, False, s)
      | Inl DoesNotExist \<Rightarrow>
          (let record = \<lparr>ugp_privilege = this_privilege, ugp_user = this_user,
                          ugp_group = this_group, ugp_grantor = this_grantor\<rparr>
           in Inr (record, True, s\<lparr>ugp := ugp s @ [record]\<rparr>))
      | Inl e \<Rightarrow> Inl e)"

definition urp_get_or_create ::
  "db \<Rightarrow> nat \<Rightarrow> nat \<Rightarrow> nat option \<Rightarrow> int \<Rightarrow> error + UserResourcePrivilege \<times> bool \<times> db" where
  "urp_get_or_create s this_resource this_user this_grantor this_privilege =
     (case get_one [x \<leftarrow> urp s. urp_resource x = this_resource \<and> urp_user x = this_user
                       \<and> urp_grantor x = this_grantor] of
        Inr record \<Rightarrow> Inr (record, False, s)
      | Inl DoesNotExist \<Rightarrow>
          (let record = \<lparr>urp_privilege = this_privilege, urp_user = this_user,
                          urp_resource = this_resource, urp_grantor = this_grantor\<rparr>
           in Inr (record, True, s\<lparr>urp := urp s @ [record]\<rparr>))
      | Inl e \<Rightarrow> Inl e)"

definition save :: "'a \<Rightarrow> 'a \<Rightarrow> 'a list \<Rightarrow> 'a list" where
  "save old new rows = map (\<lambda>y. if y = old then new else y) rows"

text \<open>
  share\_group\_with\_user runs three blocks in order: the authorization checks, the
  get\_or\_create with the update of an existing record, and the owner's override. Each
  block is a definition of its own; the method is their sequence.
\<close>

definition share_group_checks :: "db \<Rightarrow> nat \<Rightarrow> nat \<Rightarrow> int \<Rightarrow> error + unit" where
  "share_group_checks s self this_group this_privilege =
     (let access_group = gaccess s this_group in
      if \<not> is_active (users s self) then Inl (PermissionDenied ''User is not active'')
      else if \<not> owns_group s self this_group \<and> \<not> g_shareable access_group
              \<and> \<not> is_superuser (users s self)
      then Inl (PermissionDenied ''User is not group owner and group is not shareable'')
      else if \<not> is_superuser (users s self)
              \<and> [x \<leftarrow> ugp s. ugp_group x = this_group \<and> ugp_user x = self
                     \<and> ugp_privilege x \<le> this_privilege] = []
      then Inl (PermissionDenied ''User has insufficient privilege over group'')
      else Inr ())"

definition share_group_upsert :: "db \<Rightarrow> nat \<Rightarrow> nat \<Rightarrow> nat \<Rightarrow> int \<Rightarrow> error + db" where
  "share_group_upsert s self this_group this_user this_privilege =
     (case ugp_get_or_create s this_group this_user (Some self) this_privilege of
        Inl e \<Rightarrow> Inl e
      | Inr (record, created, s1) \<Rightarrow>
          if \<not> created
          then
            if ugp_privilege record = OWNER \<and> this_privilege \<noteq> OWNER
               \<and> g_get_number_of_owners s1 this_group = 1
            then Inl (PermissionDenied ''Cannot remove last owner of group'')
            else Inr (s1\<lparr>ugp := save record (record\<lparr>ugp_privilege := this_privilege\<rparr>)
                                   (ugp s1)\<rparr>)
          else Inr s1)"

definition share_group_override :: "db \<Rightarrow> nat \<Rightarrow> nat \<Rightarrow> nat \<Rightarrow> int \<Rightarrow> db" where
  "share_group_override s2 self this_group this_user this_privilege =
     (if owns_group s2 self this_group \<or> is_superuser (users s2 self)
      then s2\<lparr>ugp := [x \<leftarrow> ugp s2. \<not> (ugp_group x = this_group
                      \<and> ugp_user x = this_user
                      \<and> ugp_privilege x < this_privilege)]\<rparr>
      else s2)"

definition share_group_with_user :: "db \<Rightarrow> nat \<Rightarrow> nat \<Rightarrow> nat \<Rightarrow> int \<Rightarrow> error + db" where
  "share_group_with_user s self this_group this_user this_privilege =
     (case share_group_checks s self this_group this_privilege of
        Inl e \<Rightarrow> Inl e
      | Inr _ \<Rightarrow>
          (case share_group_upsert s self this_group this_user this_privilege of
             Inl e \<Rightarrow> Inl e
           | Inr s2 \<Rightarrow> Inr (share_group_override s2 self this_group this_user
                              this_privilege)))"

section \<open>UserAccess: unshare and undo of group membership\<close>

text \<open>
  The multimodal routines end every refusal with the same four lines: raise
  PermissionDenied when the command is DO, return False when it is CHECK.
\<close>

definition deny :: "CommandCodes \<Rightarrow> string \<Rightarrow> db \<Rightarrow> error + bool \<times> db" where
  "deny command msg s =
     (if command = DO then Inl (PermissionDenied msg) else Inr (False, s))"

definition handle_unshare_group_with_user ::
  "db \<Rightarrow> nat \<Rightarrow> nat \<Rightarrow> nat \<Rightarrow> CommandCodes \<Rightarrow> error + bool \<times> db" where
  "handle_unshare_group_with_user s self this_group this_user command =
     (if \<not> is_active (users s self) then deny command ''Grantor is not active'' s
      else if this_user \<notin> set (members s this_group)
      then deny command ''User is not a member of the group'' s
      else if is_superuser (users s self) \<or> owns_group s self this_group
              \<or> this_user = self
      then
        if [x \<leftarrow> ugp s. ugp_group x = this_group \<and> ugp_privilege x = OWNER
              \<and> \<not> ugp_user x = this_user] \<noteq> []
        then Inr (True,
               if command = DO
               then s\<lparr>ugp := [x \<leftarrow> ugp s. \<not> (ugp_group x = this_group
                                 \<and> ugp_user x = this_user)]\<rparr>
               else s)
        else deny command ''Cannot remove sole owner of group'' s
      else deny command ''User has insufficient privilege to unshare'' s)"

definition unshare_group_with_user :: "db \<Rightarrow> nat \<Rightarrow> nat \<Rightarrow> nat \<Rightarrow> error + bool \<times> db" where
  "unshare_group_with_user s self this_group this_user =
     handle_unshare_group_with_user s self this_group this_user DO"

definition can_unshare_group_with_user :: "db \<Rightarrow> nat \<Rightarrow> nat \<Rightarrow> nat \<Rightarrow> error + bool \<times> db" where
  "can_unshare_group_with_user s self this_group this_user =
     handle_unshare_group_with_user s self this_group this_user CHECK"

definition handle_undo_share_group_with_user ::
  "db \<Rightarrow> nat \<Rightarrow> nat \<Rightarrow> nat \<Rightarrow> CommandCodes \<Rightarrow> nat option \<Rightarrow> error + bool \<times> db" where
  "handle_undo_share_group_with_user s self this_group this_user command this_grantor =
     (if this_grantor \<noteq> None
         \<and> [x \<leftarrow> ugp s. ugp_group x = this_group \<and> ugp_user x = this_user
                \<and> ugp_grantor x = this_grantor] = []
      then deny command ''Grantor did not grant privilege'' s
      else if this_grantor \<noteq> None
              \<and> \<not> owns_group s self this_group \<and> \<not> is_superuser (users s self)
      then deny command ''Self must be owner or admin'' s
      else if \<not> is_active (users s self) then deny command ''Grantor is not active'' s
      else if this_user \<notin> set (members s this_group)
      then deny command ''User is not a member of the group'' s
      else
        case get_one [x \<leftarrow> ugp s. ugp_group x = this_group \<and> ugp_user x = this_user
                         \<and> ugp_grantor x = Some self] of
          Inl DoesNotExist \<Rightarrow> deny command ''No share to undo'' s
        | Inl e \<Rightarrow> Inl e
        | Inr existing \<Rightarrow>
            if ugp_privilege existing \<noteq> OWNER
               \<or> [x \<leftarrow> ugp s. ugp_group x = this_group \<and> ugp_privilege x = OWNER
                      \<and> \<not> (ugp_user x = this_user \<and> ugp_grantor x = this_grantor)] \<noteq> []
            then Inr (True,
                   if command = DO
                   then s\<lparr>ugp := [x \<leftarrow> ugp s. \<not> (ugp_group x = this_group
                                     \<and> ugp_user x = this_user
                                     \<and> ugp_grantor x = this_grantor)]\<rparr>
                   else s)
            else deny command ''Cannot remove sole owner of group'' s)"

definition undo_share_group_with_user ::
  "db \<Rightarrow> nat \<Rightarrow> nat \<Rightarrow> nat \<Rightarrow> nat option \<Rightarrow> error + bool \<times> db" where
  "undo_share_group_with_user s self this_group this_user this_grantor =
     handle_undo_share_group_with_user s self this_group this_user DO this_grantor"

definition can_undo_share_group_with_user ::
  "db \<Rightarrow> nat \<Rightarrow> nat \<Rightarrow> nat \<Rightarrow> nat option \<Rightarrow> error + bool \<times> db" where
  "can_undo_share_group_with_user s self this_group this_user this_grantor =
     handle_undo_share_group_with_user s self this_group this_user CHECK this_grantor"


section \<open>UserAccess: sharing a resource with a user\<close>

text \<open>
  share\_resource\_with\_user has the same three blocks: the checks up to the one on
  downgrading another grantor's privilege, the transaction.atomic block, and the
  override. A PermissionDenied raised inside the atomic block rolls the
  get\_or\_create back.
\<close>

definition share_resource_checks :: "db \<Rightarrow> nat \<Rightarrow> nat \<Rightarrow> nat \<Rightarrow> int \<Rightarrow> error + unit" where
  "share_resource_checks s self this_resource this_user this_privilege =
     (let access_resource = raccess s this_resource in
      if \<not> is_active (users s self)
      then Inl (PermissionDenied ''Requester is not an active user'')
      else if \<not> is_active (users s this_user)
      then Inl (PermissionDenied ''Grantee is not an active user'')
      else
        let whom_priv = get_combined_privilege s this_resource self;
            grantee_priv = get_combined_privilege s this_resource this_user
        in
        if \<not> (is_superuser (users s self) \<or> whom_priv = OWNER
              \<or> r_shareable access_resource)
        then Inl (PermissionDenied ''User must own resource or have sharing privilege'')
        else if whom_priv > VIEW
        then Inl (PermissionDenied ''User has no privilege over resource'')
        else if whom_priv > this_privilege
        then Inl (PermissionDenied ''User has insufficient privilege over resource'')
        else if whom_priv \<noteq> OWNER \<and> grantee_priv < this_privilege
        then
          (case get_one [x \<leftarrow> urp s. urp_resource x = this_resource
                           \<and> urp_user x = this_user
                           \<and> urp_privilege x = grantee_priv] of
             Inl e \<Rightarrow> Inl e
           | Inr record \<Rightarrow>
               if urp_grantor record \<noteq> Some self
               then Inl (PermissionDenied ''User has insufficient privilege over resource'')
               else Inr ())
        else Inr ())"

definition share_resource_upsert :: "db \<Rightarrow> nat \<Rightarrow> nat \<Rightarrow> nat \<Rightarrow> int \<Rightarrow> error + db" where
  "share_resource_upsert s self this_resource this_user this_privilege =
     (case urp_get_or_create s this_resource this_user (Some self) this_privilege of
        Inl e \<Rightarrow> Inl e
      | Inr (record, create, s1) \<Rightarrow>
          if urp_privilege record = OWNER \<and> this_privilege \<noteq> OWNER
             \<and> r_get_number_of_owners s1 this_resource = 1
          then Inl (PermissionDenied ''Cannot remove last owner of resource'')
          else if \<not> create
          then Inr (s1\<lparr>urp := save record (record\<lparr>urp_privilege := this_privilege\<rparr>)
                                 (urp s1)\<rparr>)
          else Inr s1)"

definition share_resource_override :: "db \<Rightarrow> nat \<Rightarrow> nat \<Rightarrow> nat \<Rightarrow> int \<Rightarrow> db" where
  "share_resource_override s2 self this_resource this_user this_privilege =
     (if is_active (users s2 self)
         \<and> (is_superuser (users s2 self) \<or> owns_resource s2 self this_resource)
      then s2\<lparr>urp := [x \<leftarrow> urp s2. \<not> (urp_resource x = this_resource
                      \<and> urp_user x = this_user
                      \<and> urp_privilege x < this_privilege)]\<rparr>
      else s2)"

definition share_resource_with_user :: "db \<Rightarrow> nat \<Rightarrow> nat \<Rightarrow> nat \<Rightarrow> int \<Rightarrow> error + db" where
  "share_resource_with_user s self this_resource this_user this_privilege =
     (case share_resource_checks s self this_resource this_user this_privilege of
        Inl e \<Rightarrow> Inl e
      | Inr _ \<Rightarrow>
          (case share_resource_upsert s self this_resource this_user this_privilege of
             Inl e \<Rightarrow> Inl e
           | Inr s2 \<Rightarrow> Inr (share_resource_override s2 self this_resource this_user
                              this_privilege)))"

section \<open>UserAccess: unshare and undo of a user's access to a resource\<close>

definition handle_unshare_resource_with_user ::
  "db \<Rightarrow> nat \<Rightarrow> nat \<Rightarrow> nat \<Rightarrow> CommandCodes \<Rightarrow> error + bool \<times> db" where
  "handle_unshare_resource_with_user s self this_resource this_user command =
     (if this_user \<notin> set (holding_users s this_resource)
      then deny command ''User does not have access to resource'' s
      else if is_superuser (users s self)
              \<or> get_combined_privilege s this_resource self = OWNER
              \<or> this_user = self
      then
        if [x \<leftarrow> urp s. urp_resource x = this_resource \<and> urp_privilege x = OWNER
              \<and> \<not> urp_user x = this_user] \<noteq> []
        then Inr (True,
               if command = DO
               then s\<lparr>urp := [x \<leftarrow> urp s. \<not> (urp_resource x = this_resource
                                 \<and> urp_user x = this_user)]\<rparr>
               else s)
        else deny command ''Cannot remove sole resource owner'' s
      else deny command ''Insufficient privilege to unshare resource'' s)"

definition unshare_resource_with_user :: "db \<Rightarrow> nat \<Rightarrow> nat \<Rightarrow> nat \<Rightarrow> error + bool \<times> db" where
  "unshare_resource_with_user s self this_resource this_user =
     handle_unshare_resource_with_user s self this_resource this_user DO"

definition can_unshare_resource_with_user ::
  "db \<Rightarrow> nat \<Rightarrow> nat \<Rightarrow> nat \<Rightarrow> error + bool \<times> db" where
  "can_unshare_resource_with_user s self this_resource this_user =
     handle_unshare_resource_with_user s self this_resource this_user CHECK"

text \<open>
  With an explicit grantor the routine first queries GroupResourcePrivilege by the
  keyword usernew, which that model does not have: the query builder raises FieldError.
  Without one, the grantor is the caller.
\<close>

definition handle_undo_share_resource_with_user ::
  "db \<Rightarrow> nat \<Rightarrow> nat \<Rightarrow> nat \<Rightarrow> CommandCodes \<Rightarrow> nat option \<Rightarrow> error + bool \<times> db" where
  "handle_undo_share_resource_with_user s self this_resource this_user command this_grantor =
     (if this_grantor \<noteq> None then Inl FieldError
      else
        let this_grantor = Some self in
        case get_one [x \<leftarrow> urp s. urp_resource x = this_resource \<and> urp_user x = this_user
                         \<and> urp_grantor x = this_grantor] of
          Inl DoesNotExist \<Rightarrow> deny command ''No share to undo'' s
        | Inl e \<Rightarrow> Inl e
        | Inr existing \<Rightarrow>
            if urp_privilege existing \<noteq> OWNER
               \<or> [x \<leftarrow> urp s. urp_resource x = this_resource \<and> urp_privilege x = OWNER
                      \<and> \<not> (urp_resource x = this_resource \<and> urp_user x = this_user)] \<noteq> []
            then Inr (True,
                   if command = DO
                   then s\<lparr>urp := [x \<leftarrow> urp s. \<not> (urp_resource x = this_resource
                                     \<and> urp_user x = this_user
                                     \<and> urp_grantor x = this_grantor)]\<rparr>
                   else s)
            else deny command ''Cannot remove sole resource owner'' s)"

definition undo_share_resource_with_user ::
  "db \<Rightarrow> nat \<Rightarrow> nat \<Rightarrow> nat \<Rightarrow> nat option \<Rightarrow> error + bool \<times> db" where
  "undo_share_resource_with_user s self this_resource this_user this_grantor =
     handle_undo_share_resource_with_user s self this_resource this_user DO this_grantor"

definition can_undo_share_resource_with_user ::
  "db \<Rightarrow> nat \<Rightarrow> nat \<Rightarrow> nat \<Rightarrow> nat option \<Rightarrow> error + bool \<times> db" where
  "can_undo_share_resource_with_user s self this_resource this_user this_grantor =
     handle_undo_share_resource_with_user s self this_resource this_user CHECK this_grantor"

section \<open>UserAccess: unsharing a resource with a group, enumeration helpers\<close>






section \<open>The resolver in the words of the specification\<close>

text \<open>
  The privileges the specification lets count for a user over a resource: those of the
  direct grants to the user, the user being active, and those of the grants to an active
  group of which the user, being active, is a member.
\<close>

definition direct_grants :: "db \<Rightarrow> nat \<Rightarrow> nat \<Rightarrow> int set" where
  "direct_grants s r u =
     {urp_privilege x | x. x \<in> set (urp s) \<and> urp_user x = u \<and> urp_resource x = r
        \<and> is_active (users s u)}"

definition group_grants :: "db \<Rightarrow> nat \<Rightarrow> nat \<Rightarrow> int set" where
  "group_grants s r u =
     {grp_privilege x | x. x \<in> set (grp s) \<and> grp_resource x = r
        \<and> g_active (gaccess s (grp_group x))
        \<and> (\<exists>y \<in> set (ugp s). ugp_group y = grp_group x \<and> ugp_user y = u)
        \<and> is_active (users s u)}"

section \<open>Example databases\<close>

text \<open>
  Users 1, 2, 3, group 5 and resource 7. A new GroupAccess or ResourceAccess row has the
  field defaults of its model. \<open>resource_7\<close> and \<open>group_5\<close> are resource 7 and
  group 5 as their creation by user 1 leaves them: one OWNER record, from user 1 to
  user 1.
\<close>

definition plain_user :: User where
  "plain_user = \<lparr>is_active = True, is_superuser = False\<rparr>"

definition inactive_user :: User where
  "inactive_user = \<lparr>is_active = False, is_superuser = False\<rparr>"

definition admin_user :: User where
  "admin_user = \<lparr>is_active = True, is_superuser = True\<rparr>"

definition new_gaccess :: GroupAccess where
  "new_gaccess = \<lparr>g_active = True, g_discoverable = True, g_public = True, g_shareable = True\<rparr>"

definition new_raccess :: ResourceAccess where
  "new_raccess = \<lparr>r_active = True, r_discoverable = False, r_public = False,
                   r_shareable = True, r_published = False, r_immutable = False\<rparr>"

definition empty_db :: db where
  "empty_db = \<lparr>users = (\<lambda>_. plain_user), gaccess = (\<lambda>_. new_gaccess),
                raccess = (\<lambda>_. new_raccess), ugp = [], urp = [], grp = []\<rparr>"

definition resource_7 :: db where
  "resource_7 = empty_db\<lparr>urp := [\<lparr>urp_privilege = OWNER, urp_user = 1, urp_resource = 7,
                                     urp_grantor = Some 1\<rparr>]\<rparr>"

definition resource_7_shared :: db where
  "resource_7_shared = empty_db\<lparr>urp :=
     [\<lparr>urp_privilege = OWNER, urp_user = 1, urp_resource = 7, urp_grantor = Some 1\<rparr>,
      \<lparr>urp_privilege = VIEW, urp_user = 2, urp_resource = 7, urp_grantor = Some 1\<rparr>]\<rparr>"

definition resource_7_a :: db where
  "resource_7_a = empty_db\<lparr>urp :=
     [\<lparr>urp_privilege = OWNER, urp_user = 1, urp_resource = 7, urp_grantor = Some 1\<rparr>,
      \<lparr>urp_privilege = OWNER, urp_user = 2, urp_resource = 7, urp_grantor = Some 1\<rparr>]\<rparr>"

definition resource_7_b :: db where
  "resource_7_b = empty_db\<lparr>urp :=
     [\<lparr>urp_privilege = OWNER, urp_user = 2, urp_resource = 7, urp_grantor = Some 1\<rparr>,
      \<lparr>urp_privilege = VIEW, urp_user = 1, urp_resource = 7, urp_grantor = Some 2\<rparr>]\<rparr>"

definition resource_7_c :: db where
  "resource_7_c = empty_db\<lparr>urp :=
     [\<lparr>urp_privilege = VIEW, urp_user = 1, urp_resource = 7, urp_grantor = Some 2\<rparr>,
      \<lparr>urp_privilege = VIEW, urp_user = 2, urp_resource = 7, urp_grantor = Some 2\<rparr>]\<rparr>"

definition group_5 :: db where
  "group_5 = empty_db\<lparr>ugp := [\<lparr>ugp_privilege = OWNER, ugp_user = 1, ugp_group = 5,
                                   ugp_grantor = Some 1\<rparr>]\<rparr>"

definition group_5_shared :: db where
  "group_5_shared = empty_db\<lparr>ugp :=
     [\<lparr>ugp_privilege = OWNER, ugp_user = 1, ugp_group = 5, ugp_grantor = Some 1\<rparr>,
      \<lparr>ugp_privilege = VIEW, ugp_user = 2, ugp_group = 5, ugp_grantor = Some 1\<rparr>]\<rparr>"

definition group_5_shared_after :: db where
  "group_5_shared_after = empty_db\<lparr>ugp :=
     [\<lparr>ugp_privilege = OWNER, ugp_user = 1, ugp_group = 5, ugp_grantor = Some 1\<rparr>,
      \<lparr>ugp_privilege = CHANGE, ugp_user = 2, ugp_group = 5, ugp_grantor = Some 1\<rparr>]\<rparr>"

definition group_5_a :: db where
  "group_5_a = group_5\<lparr>ugp :=
     [\<lparr>ugp_privilege = OWNER, ugp_user = 1, ugp_group = 5, ugp_grantor = Some 1\<rparr>,
      \<lparr>ugp_privilege = OWNER, ugp_user = 2, ugp_group = 5, ugp_grantor = Some 1\<rparr>]\<rparr>"

definition group_5_b :: db where
  "group_5_b = group_5\<lparr>ugp :=
     [\<lparr>ugp_privilege = OWNER, ugp_user = 2, ugp_group = 5, ugp_grantor = Some 1\<rparr>,
      \<lparr>ugp_privilege = VIEW, ugp_user = 1, ugp_group = 5, ugp_grantor = Some 2\<rparr>]\<rparr>"

definition group_5_c :: db where
  "group_5_c = group_5\<lparr>ugp :=
     [\<lparr>ugp_privilege = VIEW, ugp_user = 1, ugp_group = 5, ugp_grantor = Some 2\<rparr>,
      \<lparr>ugp_privilege = VIEW, ugp_user = 2, ugp_group = 5, ugp_grantor = Some 2\<rparr>]\<rparr>"

definition two_grantors_db :: db where
  "two_grantors_db = empty_db\<lparr>urp :=
     [\<lparr>urp_privilege = OWNER, urp_user = 1, urp_resource = 7, urp_grantor = Some 1\<rparr>,
      \<lparr>urp_privilege = VIEW, urp_user = 3, urp_resource = 7, urp_grantor = Some 1\<rparr>,
      \<lparr>urp_privilege = VIEW, urp_user = 2, urp_resource = 7, urp_grantor = Some 3\<rparr>]\<rparr>"

definition two_grantors_after :: db where
  "two_grantors_after = empty_db\<lparr>urp :=
     [\<lparr>urp_privilege = OWNER, urp_user = 1, urp_resource = 7, urp_grantor = Some 1\<rparr>,
      \<lparr>urp_privilege = VIEW, urp_user = 3, urp_resource = 7, urp_grantor = Some 1\<rparr>,
      \<lparr>urp_privilege = VIEW, urp_user = 2, urp_resource = 7, urp_grantor = Some 3\<rparr>,
      \<lparr>urp_privilege = CHANGE, urp_user = 2, urp_resource = 7, urp_grantor = Some 1\<rparr>]\<rparr>"

definition frozen_public_db :: db where
  "frozen_public_db = resource_7\<lparr>raccess := (\<lambda>_. new_raccess\<lparr>r_public := True, r_immutable := True\<rparr>)\<rparr>"

definition inactive_resource_db :: db where
  "inactive_resource_db = resource_7\<lparr>raccess := (\<lambda>_. new_raccess\<lparr>r_active := False\<rparr>)\<rparr>"


definition group_mediated_db :: db where
  "group_mediated_db = empty_db\<lparr>
     ugp := [\<lparr>ugp_privilege = VIEW, ugp_user = 2, ugp_group = 5, ugp_grantor = Some 1\<rparr>],
     urp := [\<lparr>urp_privilege = OWNER, urp_user = 1, urp_resource = 7, urp_grantor = Some 1\<rparr>,
             \<lparr>urp_privilege = VIEW, urp_user = 2, urp_resource = 7, urp_grantor = Some 1\<rparr>],
     grp := [\<lparr>grp_privilege = CHANGE, grp_group = 5, grp_resource = 7, grp_grantor = Some 1\<rparr>]\<rparr>"

definition above_scale_db :: db where
  "above_scale_db = empty_db\<lparr>urp :=
     [\<lparr>urp_privilege = OWNER, urp_user = 1, urp_resource = 7, urp_grantor = Some 1\<rparr>,
      \<lparr>urp_privilege = 5, urp_user = 2, urp_resource = 7, urp_grantor = Some 1\<rparr>]\<rparr>"

definition admin_granted_db :: db where
  "admin_granted_db = empty_db\<lparr>users := (\<lambda>_. plain_user)(1 := admin_user, 2 := inactive_user),
     ugp := [\<lparr>ugp_privilege = OWNER, ugp_user = 2, ugp_group = 5, ugp_grantor = Some 2\<rparr>,
             \<lparr>ugp_privilege = OWNER, ugp_user = 2, ugp_group = 5, ugp_grantor = Some 1\<rparr>]\<rparr>"


section \<open>Unfolding rules and facts about the query helpers\<close>

lemmas example_defs = plain_user_def new_gaccess_def new_raccess_def empty_db_def resource_7_def

lemmas sequence_defs = group_5_def group_5_a_def group_5_b_def group_5_c_def
  resource_7_a_def resource_7_b_def resource_7_c_def

lemmas share_resource_defs = share_resource_with_user_def share_resource_checks_def
  share_resource_upsert_def share_resource_override_def urp_get_or_create_def
  get_combined_privilege_def r_get_number_of_owners_def owns_resource_def save_def

lemmas share_group_defs = share_group_with_user_def share_group_checks_def
  share_group_upsert_def share_group_override_def ugp_get_or_create_def
  g_get_number_of_owners_def owns_group_def save_def

lemmas undo_defs = undo_share_group_with_user_def handle_undo_share_group_with_user_def
  undo_share_resource_with_user_def handle_undo_share_resource_with_user_def
  deny_def members_def owns_group_def owns_resource_def

lemma aggregate_Min_eq:
  "aggregate_Min xs = (if xs = [] then None else Some (Min (set xs)))"
proof (cases xs)
  case Nil
  then show ?thesis by simp
next
  case (Cons a list)
  then show ?thesis using Min.set_eq_fold [of a list] by simp
qed

lemma get_one_cases:
  "get_one xs = Inr x \<longleftrightarrow> xs = [x]"
  "get_one xs = Inl DoesNotExist \<longleftrightarrow> xs = []"
  "get_one xs = Inl MultipleObjectsReturned \<longleftrightarrow> 2 \<le> length xs"
  by (cases xs rule: get_one.cases; simp)+

lemma get_one_errors:
  "get_one xs \<noteq> Inl (PermissionDenied m)" "get_one xs \<noteq> Inl FieldError"
  by (cases xs rule: get_one.cases; simp)+

lemma filter_short_cases:
  assumes "length xs \<le> 1"
  obtains "xs = []" | x where "xs = [x]"
  using assms by (cases xs rule: get_one.cases) auto

lemma filter_singletonD:
  assumes "filter P xs = [x]"
  shows "x \<in> set xs" "P x"
proof -
  from assms have "x \<in> set (filter P xs)" by simp
  then show "x \<in> set xs" "P x" by simp_all
qed

lemma set_save:
  "set (save old new rows) = (set rows - {old}) \<union> (if old \<in> set rows then {new} else {})"
  by (auto simp: save_def)

lemma owns_resource_iff:
  "owns_resource s self r \<longleftrightarrow>
     (\<exists>x \<in> set (urp s). urp_resource x = r \<and> urp_user x = self \<and> urp_privilege x = OWNER)"
  by (auto simp: owns_resource_def filter_empty_conv)

lemma owns_group_iff:
  "owns_group s self g \<longleftrightarrow>
     (\<exists>x \<in> set (ugp s). ugp_group x = g \<and> ugp_user x = self \<and> ugp_privilege x = OWNER)
     \<and> g_active (gaccess s g)"
  by (auto simp: owns_group_def filter_empty_conv)

lemma urp_get_or_create_Inr:
  assumes "urp_get_or_create s r u g p = Inr (record, created, s1)"
  shows "(created \<and> [x \<leftarrow> urp s. urp_resource x = r \<and> urp_user x = u \<and> urp_grantor x = g] = []
            \<and> record = \<lparr>urp_privilege = p, urp_user = u, urp_resource = r, urp_grantor = g\<rparr>
            \<and> s1 = s\<lparr>urp := urp s @ [record]\<rparr>)
         \<or> (\<not> created \<and> [x \<leftarrow> urp s. urp_resource x = r \<and> urp_user x = u \<and> urp_grantor x = g] = [record]
            \<and> s1 = s)"
  using assms
  by (auto simp: urp_get_or_create_def Let_def get_one_cases split: sum.splits error.splits)

lemma ugp_get_or_create_Inr:
  assumes "ugp_get_or_create s r u g p = Inr (record, created, s1)"
  shows "(created \<and> [x \<leftarrow> ugp s. ugp_group x = r \<and> ugp_user x = u \<and> ugp_grantor x = g] = []
            \<and> record = \<lparr>ugp_privilege = p, ugp_user = u, ugp_group = r, ugp_grantor = g\<rparr>
            \<and> s1 = s\<lparr>ugp := ugp s @ [record]\<rparr>)
         \<or> (\<not> created \<and> [x \<leftarrow> ugp s. ugp_group x = r \<and> ugp_user x = u \<and> ugp_grantor x = g] = [record]
            \<and> s1 = s)"
  using assms
  by (auto simp: ugp_get_or_create_def Let_def get_one_cases split: sum.splits error.splits)

section \<open>Combined and effective privilege\<close>

lemma direct_grants_set:
  "direct_grants s r u = set [urp_privilege x. x \<leftarrow> urp s,
                 urp_user x = u \<and> is_active (users s (urp_user x))
                 \<and> urp_resource x = r]"
  by (auto simp: direct_grants_def)

lemma group_grants_set:
  "group_grants s r u = set [grp_privilege x. x \<leftarrow> grp s, y \<leftarrow> ugp s,
                 grp_resource x = r \<and> g_active (gaccess s (grp_group x))
                 \<and> ugp_group y = grp_group x \<and> ugp_user y = u
                 \<and> is_active (users s (ugp_user y))]"
  by (auto simp: group_grants_def)

lemma combined_not_super:
  assumes "\<not> is_superuser (users s u)"
  shows "get_combined_privilege s r u =
     min (if direct_grants s r u = {} then NONE else Min (direct_grants s r u))
         (if group_grants s r u = {} then NONE else Min (group_grants s r u))"
  using assms
  unfolding get_combined_privilege_def Let_def aggregate_Min_eq direct_grants_set group_grants_set
  by (simp only: set_empty if_False option.case if_distrib[of "case_option NONE (\<lambda>v. v)"] cong: if_cong)

text \<open>
  Claim C9, as the code has it. get\_combined\_privilege answers OWNER for a superuser
  whatever the grants and active flags are. For any other user it answers the smaller of
  two numbers: the minimum privilege of the direct grants to the user (the user active),
  NONE when there is none, and the minimum privilege of the grants to active groups of
  which the active user is a member, NONE when there is none. So it answers NONE when no
  grant applies, and the minimum of the applicable privileges when none of them is above
  NONE.
\<close>

theorem get_combined_privilege_min:
  "(is_superuser (users s u) \<longrightarrow> get_combined_privilege s r u = OWNER)
   \<and> (\<not> is_superuser (users s u)
        \<longrightarrow> get_combined_privilege s r u =
            min (if direct_grants s r u = {} then NONE else Min (direct_grants s r u))
                (if group_grants s r u = {} then NONE else Min (group_grants s r u)))
   \<and> (\<not> is_superuser (users s u) \<and> direct_grants s r u \<union> group_grants s r u = {}
        \<longrightarrow> get_combined_privilege s r u = NONE)
   \<and> (\<not> is_superuser (users s u) \<and> direct_grants s r u \<union> group_grants s r u \<noteq> {}
        \<and> (\<forall>p \<in> direct_grants s r u \<union> group_grants s r u. p \<le> NONE)
        \<longrightarrow> get_combined_privilege s r u = Min (direct_grants s r u \<union> group_grants s r u))"
proof (intro conjI impI)
  assume "is_superuser (users s u)"
  then show "get_combined_privilege s r u = OWNER"
    by (simp add: get_combined_privilege_def)
next
  assume "\<not> is_superuser (users s u)"
  then show "get_combined_privilege s r u =
            min (if direct_grants s r u = {} then NONE else Min (direct_grants s r u))
                (if group_grants s r u = {} then NONE else Min (group_grants s r u))"
    by (rule combined_not_super)
next
  assume "\<not> is_superuser (users s u) \<and> direct_grants s r u \<union> group_grants s r u = {}"
  then show "get_combined_privilege s r u = NONE"
    by (simp add: combined_not_super)
next
  let ?D = "direct_grants s r u" and ?G = "group_grants s r u"
  assume a: "\<not> is_superuser (users s u) \<and> ?D \<union> ?G \<noteq> {} \<and> (\<forall>p \<in> ?D \<union> ?G. p \<le> NONE)"
  have fD: "finite ?D" by (simp add: direct_grants_set)
  have fG: "finite ?G" by (simp add: group_grants_set)
  show "get_combined_privilege s r u = Min (?D \<union> ?G)"
  proof (cases "?D = {}")
    case True
    with a have "?G \<noteq> {}" by simp
    moreover from a fG this have "Min ?G \<le> NONE" by (simp add: Min_le_iff)
    ultimately show ?thesis using a True by (simp add: combined_not_super min_def)
  next
    case False
    note D = this
    from a fD D have dn: "Min ?D \<le> NONE" by (simp add: Min_le_iff)
    show ?thesis
    proof (cases "?G = {}")
      case True
      then show ?thesis using a D dn by (simp add: combined_not_super min_def)
    next
      case False
      then show ?thesis using a D fD fG by (simp add: combined_not_super Min_Un)
    qed
  qed
qed

text \<open>
  The claim has the answer be the minimum over the applicable grants.
  share\_resource\_with\_user does not bound its privilege argument from above: the owner
  of resource 7 shares it with user 2 at privilege 5, the record is stored, and the
  combined privilege of user 2 is NONE while the only applicable grant is 5.
\<close>

theorem get_combined_privilege_above_scale_counterexample:
  "share_resource_with_user resource_7 1 7 2 5 = Inr above_scale_db
   \<and> \<not> is_superuser (users above_scale_db 2)
   \<and> direct_grants above_scale_db 7 2 \<union> group_grants above_scale_db 7 2 = {5}
   \<and> get_combined_privilege above_scale_db 7 2 = NONE
   \<and> NONE < 5"
proof (intro conjI)
  show "share_resource_with_user resource_7 1 7 2 5 = Inr above_scale_db"
    by (simp add: above_scale_db_def example_defs PrivilegeCodes share_resource_defs Let_def)
  show "\<not> is_superuser (users above_scale_db 2)"
    by (simp add: above_scale_db_def example_defs)
  show "direct_grants above_scale_db 7 2 \<union> group_grants above_scale_db 7 2 = {5}"
    by (simp add: direct_grants_set group_grants_set above_scale_db_def example_defs
        PrivilegeCodes)
  show "get_combined_privilege above_scale_db 7 2 = NONE"
    by (simp add: above_scale_db_def example_defs PrivilegeCodes get_combined_privilege_def)
  show "NONE < 5"
    by (simp add: PrivilegeCodes)
qed

text \<open>
  The theorem at work: user 2 holds VIEW directly and CHANGE through group 5, user 3
  holds nothing, user 1 of the third database is a superuser, and user 2 of the last
  holds the stored privilege 5.
\<close>

theorem get_combined_privilege_min_witness:
  "\<not> is_superuser (users group_mediated_db 2)
   \<and> direct_grants group_mediated_db 7 2 \<union> group_grants group_mediated_db 7 2 = {VIEW, CHANGE}
   \<and> get_combined_privilege group_mediated_db 7 2 = CHANGE
   \<and> direct_grants group_mediated_db 7 3 \<union> group_grants group_mediated_db 7 3 = {}
   \<and> get_combined_privilege group_mediated_db 7 3 = NONE
   \<and> is_superuser (users admin_granted_db 1)
   \<and> get_combined_privilege admin_granted_db 7 1 = OWNER
   \<and> \<not> is_superuser (users above_scale_db 2)
   \<and> direct_grants above_scale_db 7 2 = {5}
   \<and> group_grants above_scale_db 7 2 = {}
   \<and> get_combined_privilege above_scale_db 7 2 = min 5 NONE"
proof -
  have o: "\<not> is_superuser (users above_scale_db 2)"
    by (simp add: above_scale_db_def example_defs)
  have od: "direct_grants above_scale_db 7 2 = {5}"
    by (simp add: direct_grants_set above_scale_db_def example_defs PrivilegeCodes)
  have og: "group_grants above_scale_db 7 2 = {}"
    by (simp add: group_grants_set above_scale_db_def example_defs PrivilegeCodes)
  from o od og get_combined_privilege_min [where s = above_scale_db and u = 2 and r = 7]
  have x: "get_combined_privilege above_scale_db 7 2 = min 5 NONE"
    by simp
  have s2: "\<not> is_superuser (users group_mediated_db 2) \<and> \<not> is_superuser (users group_mediated_db 3)"
    by (simp add: group_mediated_db_def example_defs)
  have g2: "direct_grants group_mediated_db 7 2 \<union> group_grants group_mediated_db 7 2 = {VIEW, CHANGE}"
    by (simp add: direct_grants_set group_grants_set group_mediated_db_def example_defs PrivilegeCodes
        insert_commute)
  have g3: "direct_grants group_mediated_db 7 3 \<union> group_grants group_mediated_db 7 3 = {}"
    by (simp add: direct_grants_set group_grants_set group_mediated_db_def example_defs PrivilegeCodes)
  have m: "Min {VIEW, CHANGE} = CHANGE" "{VIEW, CHANGE} \<noteq> {}" "\<forall>p \<in> {VIEW, CHANGE}. p \<le> NONE"
    by (simp_all add: PrivilegeCodes)
  have a: "is_superuser (users admin_granted_db 1)"
    by (simp add: admin_granted_db_def example_defs admin_user_def)
  from s2 g2 g3 m a get_combined_privilege_min [where s = group_mediated_db and u = 2 and r = 7]
    get_combined_privilege_min [where s = group_mediated_db and u = 3 and r = 7]
    get_combined_privilege_min [where s = admin_granted_db and u = 1 and r = 7]
  have "\<not> is_superuser (users group_mediated_db 2)
   \<and> direct_grants group_mediated_db 7 2 \<union> group_grants group_mediated_db 7 2 = {VIEW, CHANGE}
   \<and> get_combined_privilege group_mediated_db 7 2 = CHANGE
   \<and> direct_grants group_mediated_db 7 3 \<union> group_grants group_mediated_db 7 3 = {}
   \<and> get_combined_privilege group_mediated_db 7 3 = NONE
   \<and> is_superuser (users admin_granted_db 1)
   \<and> get_combined_privilege admin_granted_db 7 1 = OWNER"
    by simp
  with o od og x show ?thesis by simp
qed

text \<open>
  Claim C6. With immutable and public both set the effective privilege is VIEW whatever
  the grants are; with neither set it is the combined privilege; and applying the public
  adjustment before the immutable one gives the same result as the order of the code.
\<close>

theorem get_effective_privilege_flags:
  "(r_immutable (raccess s r) \<and> r_public (raccess s r)
      \<longrightarrow> get_effective_privilege s r u = VIEW)
   \<and> (\<not> r_immutable (raccess s r) \<and> \<not> r_public (raccess s r)
      \<longrightarrow> get_effective_privilege s r u = get_combined_privilege s r u)
   \<and> get_effective_privilege s r u =
       (let user_priv = get_combined_privilege s r u;
            user_priv = (if r_public (raccess s r) then min user_priv VIEW else user_priv);
            user_priv = (if r_immutable (raccess s r) then max user_priv VIEW else user_priv)
        in user_priv)"
  by (simp add: get_effective_privilege_def Let_def)

text \<open>
  On an immutable public resource the owner and a stranger both get VIEW; on the plain
  resource the owner keeps the combined privilege.
\<close>

theorem get_effective_privilege_flags_witness:
  "r_immutable (raccess frozen_public_db 7) \<and> r_public (raccess frozen_public_db 7)
   \<and> get_effective_privilege frozen_public_db 7 1 = VIEW
   \<and> get_combined_privilege frozen_public_db 7 1 = OWNER
   \<and> get_effective_privilege frozen_public_db 7 2 = VIEW
   \<and> get_combined_privilege frozen_public_db 7 2 = NONE
   \<and> \<not> r_immutable (raccess resource_7 7) \<and> \<not> r_public (raccess resource_7 7)
   \<and> get_effective_privilege resource_7 7 1 = get_combined_privilege resource_7 7 1"
proof -
  have f: "r_immutable (raccess frozen_public_db 7) \<and> r_public (raccess frozen_public_db 7)"
    by (simp add: frozen_public_db_def example_defs)
  have c: "get_combined_privilege frozen_public_db 7 1 = OWNER \<and> get_combined_privilege frozen_public_db 7 2 = NONE"
    by (simp add: frozen_public_db_def example_defs PrivilegeCodes get_combined_privilege_def)
  have n: "\<not> r_immutable (raccess resource_7 7) \<and> \<not> r_public (raccess resource_7 7)"
    by (simp add: example_defs)
  from f c n get_effective_privilege_flags [where s = frozen_public_db and r = 7 and u = 1]
    get_effective_privilege_flags [where s = frozen_public_db and r = 7 and u = 2]
    get_effective_privilege_flags [where s = resource_7 and r = 7 and u = 1]
  show ?thesis by blast
qed

section \<open>Ownership\<close>

text \<open>
  Claim C7, as the code has it. owns\_group holds exactly when the user has an OWNER
  record over the group and the group is active. owns\_resource holds exactly when the
  user has an OWNER record over the resource: no method reads the active flag of a
  resource.
\<close>

theorem owns_iff:
  "(owns_group s u g \<longleftrightarrow>
      (\<exists>x \<in> set (ugp s). ugp_group x = g \<and> ugp_user x = u \<and> ugp_privilege x = OWNER)
      \<and> g_active (gaccess s g))
   \<and> (owns_resource s u r \<longleftrightarrow>
      (\<exists>x \<in> set (urp s). urp_resource x = r \<and> urp_user x = u \<and> urp_privilege x = OWNER))"
  by (auto simp: owns_group_def owns_resource_def filter_empty_conv)

text \<open>
  The claim asks owns\_resource to be false for an inactive resource. Resource 7 is
  inactive here and user 1 owns it all the same.
\<close>

theorem owns_resource_inactive_counterexample:
  "r_active (raccess inactive_resource_db 7) = False
   \<and> urp inactive_resource_db = [\<lparr>urp_privilege = OWNER, urp_user = 1, urp_resource = 7,
                    urp_grantor = Some 1\<rparr>]
   \<and> owns_resource inactive_resource_db 1 7 = True"
  by (simp add: inactive_resource_db_def example_defs PrivilegeCodes owns_resource_def)

theorem owns_iff_witness:
  "owns_group group_5 1 5 \<and> \<not> owns_group group_5 2 5
   \<and> \<not> owns_group (group_5\<lparr>gaccess := (\<lambda>_. new_gaccess\<lparr>g_active := False\<rparr>)\<rparr>) 1 5
   \<and> owns_resource inactive_resource_db 1 7 \<and> \<not> owns_resource inactive_resource_db 2 7"
  using owns_iff [where s = group_5 and u = 1 and g = 5]
    owns_iff [where s = group_5 and u = 2 and g = 5]
    owns_iff [where s = "group_5\<lparr>gaccess := (\<lambda>_. new_gaccess\<lparr>g_active := False\<rparr>)\<rparr>"
      and u = 1 and g = 5]
    owns_iff [where s = inactive_resource_db and u = 1 and r = 7]
    owns_iff [where s = inactive_resource_db and u = 2 and r = 7]
  by (simp add: inactive_resource_db_def group_5_def example_defs PrivilegeCodes)

section \<open>Inactive requesting users\<close>




section \<open>Sharing a resource: the predicate and the action\<close>

lemma share_resource_checks_iff:
  "(\<exists>m. share_resource_checks s self r u p = Inl (PermissionDenied m)) \<or> can_share_resource s self r p"
  by (auto simp: can_share_resource_def share_resource_checks_def Let_def split: if_splits)

lemma share_resource_checks_ok:
  assumes "can_share_resource s self r p" "is_active (users s u)"
    "get_combined_privilege s r self = OWNER \<or> p \<le> get_combined_privilege s r u"
  shows "share_resource_checks s self r u p = Inr ()"
  using assms
  by (auto simp: can_share_resource_def share_resource_checks_def Let_def split: if_splits)

lemma share_resource_upsert_ok:
  assumes uniq: "length [x \<leftarrow> urp s. urp_resource x = r \<and> urp_user x = u
                          \<and> urp_grantor x = Some self] \<le> 1"
    and keep: "\<not> (\<exists>x \<in> set (urp s). urp_resource x = r \<and> urp_user x = u
                    \<and> urp_grantor x = Some self \<and> urp_privilege x = OWNER
                    \<and> p \<noteq> OWNER \<and> r_get_number_of_owners s r = 1)"
  shows "\<exists>s2. share_resource_upsert s self r u p = Inr s2"
proof (rule filter_short_cases [OF uniq])
  assume "[x \<leftarrow> urp s. urp_resource x = r \<and> urp_user x = u \<and> urp_grantor x = Some self] = []"
  then show ?thesis
    by (simp add: share_resource_upsert_def urp_get_or_create_def Let_def)
next
  fix x
  assume e: "[x \<leftarrow> urp s. urp_resource x = r \<and> urp_user x = u \<and> urp_grantor x = Some self] = [x]"
  then have "x \<in> set [x \<leftarrow> urp s. urp_resource x = r \<and> urp_user x = u \<and> urp_grantor x = Some self]"
    by simp
  then have "x \<in> set (urp s)" "urp_resource x = r" "urp_user x = u" "urp_grantor x = Some self"
    by simp_all
  with keep have "\<not> (urp_privilege x = OWNER \<and> p \<noteq> OWNER \<and> r_get_number_of_owners s r = 1)"
    by blast
  with e show ?thesis
    by (auto simp add: share_resource_upsert_def urp_get_or_create_def Let_def)
qed

lemma check_do_unshare_group:
  "(\<exists>b s'. unshare_group_with_user s self g u = Inr (b, s'))
     \<longleftrightarrow> can_unshare_group_with_user s self g u = Inr (True, s)"
  "(\<exists>m. unshare_group_with_user s self g u = Inl (PermissionDenied m))
     \<longleftrightarrow> can_unshare_group_with_user s self g u = Inr (False, s)"
  by (auto simp: unshare_group_with_user_def can_unshare_group_with_user_def
      handle_unshare_group_with_user_def deny_def)

lemma check_do_undo_group:
  "(\<exists>b s'. undo_share_group_with_user s self g u gr = Inr (b, s'))
     \<longleftrightarrow> can_undo_share_group_with_user s self g u gr = Inr (True, s)"
  "(\<exists>m. undo_share_group_with_user s self g u gr = Inl (PermissionDenied m))
     \<longleftrightarrow> can_undo_share_group_with_user s self g u gr = Inr (False, s)"
  by (auto simp: undo_share_group_with_user_def can_undo_share_group_with_user_def
      handle_undo_share_group_with_user_def deny_def get_one_errors split: sum.splits error.splits)

lemma check_do_unshare_resource:
  "(\<exists>b s'. unshare_resource_with_user s self r u = Inr (b, s'))
     \<longleftrightarrow> can_unshare_resource_with_user s self r u = Inr (True, s)"
  "(\<exists>m. unshare_resource_with_user s self r u = Inl (PermissionDenied m))
     \<longleftrightarrow> can_unshare_resource_with_user s self r u = Inr (False, s)"
  by (auto simp: unshare_resource_with_user_def can_unshare_resource_with_user_def
      handle_unshare_resource_with_user_def deny_def)

lemma check_do_undo_resource:
  "(\<exists>b s'. undo_share_resource_with_user s self r u gr = Inr (b, s'))
     \<longleftrightarrow> can_undo_share_resource_with_user s self r u gr = Inr (True, s)"
  "(\<exists>m. undo_share_resource_with_user s self r u gr = Inl (PermissionDenied m))
     \<longleftrightarrow> can_undo_share_resource_with_user s self r u gr = Inr (False, s)"
  by (auto simp: undo_share_resource_with_user_def can_undo_share_resource_with_user_def
      handle_undo_share_resource_with_user_def deny_def Let_def get_one_errors split: sum.splits error.splits)

text \<open>
  Claim C1, as the code has it. For the unshare and undo pairs on a user's access to a
  group or a resource the predicate returns True exactly when the action completes
  without raising. For the share pairs one direction holds: when can\_share\_resource or
  can\_share\_group is false the action raises PermissionDenied, for every grantee. When
  can\_share\_resource is true the action completes provided the grantee is active, the
  caller holds OWNER or does not lower the grantee's current privilege, the caller has
  at most one record for the grantee on the resource, and that record is not an OWNER
  record being lowered on a resource with a single owner record.
\<close>

theorem predicate_action_pairs:
  "(\<not> can_share_resource s self r p \<longrightarrow>
      (\<exists>m. share_resource_with_user s self r u p = Inl (PermissionDenied m)))
   \<and> (can_share_resource s self r p \<and> is_active (users s u)
      \<and> (get_combined_privilege s r self = OWNER \<or> p \<le> get_combined_privilege s r u)
      \<and> length [x \<leftarrow> urp s. urp_resource x = r \<and> urp_user x = u
                   \<and> urp_grantor x = Some self] \<le> 1
      \<and> \<not> (\<exists>x \<in> set (urp s). urp_resource x = r \<and> urp_user x = u
              \<and> urp_grantor x = Some self \<and> urp_privilege x = OWNER
              \<and> p \<noteq> OWNER \<and> r_get_number_of_owners s r = 1)
      \<longrightarrow> (\<exists>s'. share_resource_with_user s self r u p = Inr s'))
   \<and> (\<not> can_share_group s self g p \<longrightarrow>
      (\<exists>m. share_group_with_user s self g u p = Inl (PermissionDenied m)))
   \<and> ((\<exists>b s'. unshare_group_with_user s self g u = Inr (b, s'))
        \<longleftrightarrow> can_unshare_group_with_user s self g u = Inr (True, s))
   \<and> ((\<exists>b s'. undo_share_group_with_user s self g u grantor = Inr (b, s'))
        \<longleftrightarrow> can_undo_share_group_with_user s self g u grantor = Inr (True, s))
   \<and> ((\<exists>b s'. unshare_resource_with_user s self r u = Inr (b, s'))
        \<longleftrightarrow> can_unshare_resource_with_user s self r u = Inr (True, s))
   \<and> ((\<exists>b s'. undo_share_resource_with_user s self r u grantor = Inr (b, s'))
        \<longleftrightarrow> can_undo_share_resource_with_user s self r u grantor = Inr (True, s))"
proof (intro conjI impI)
  assume "\<not> can_share_resource s self r p"
  with share_resource_checks_iff [of s self r u p]
  obtain m where "share_resource_checks s self r u p = Inl (PermissionDenied m)" by blast
  then show "\<exists>m. share_resource_with_user s self r u p = Inl (PermissionDenied m)"
    by (simp add: share_resource_with_user_def)
next
  assume a: "can_share_resource s self r p \<and> is_active (users s u)
      \<and> (get_combined_privilege s r self = OWNER \<or> p \<le> get_combined_privilege s r u)
      \<and> length [x \<leftarrow> urp s. urp_resource x = r \<and> urp_user x = u
                   \<and> urp_grantor x = Some self] \<le> 1
      \<and> \<not> (\<exists>x \<in> set (urp s). urp_resource x = r \<and> urp_user x = u
              \<and> urp_grantor x = Some self \<and> urp_privilege x = OWNER
              \<and> p \<noteq> OWNER \<and> r_get_number_of_owners s r = 1)"
  then have c: "share_resource_checks s self r u p = Inr ()"
    by (simp add: share_resource_checks_ok)
  from a have uniq: "length [x \<leftarrow> urp s. urp_resource x = r \<and> urp_user x = u
                   \<and> urp_grantor x = Some self] \<le> 1"
    and keep: "\<not> (\<exists>x \<in> set (urp s). urp_resource x = r \<and> urp_user x = u
              \<and> urp_grantor x = Some self \<and> urp_privilege x = OWNER
              \<and> p \<noteq> OWNER \<and> r_get_number_of_owners s r = 1)"
    by simp_all
  from share_resource_upsert_ok [OF uniq keep]
  obtain s2 where "share_resource_upsert s self r u p = Inr s2" by blast
  with c show "\<exists>s'. share_resource_with_user s self r u p = Inr s'"
    by (simp add: share_resource_with_user_def)
next
  assume "\<not> can_share_group s self g p"
  then obtain m where "share_group_checks s self g p = Inl (PermissionDenied m)"
    by (auto simp: share_group_checks_def can_share_group_def Let_def split: if_splits)
  then show "\<exists>m. share_group_with_user s self g u p = Inl (PermissionDenied m)"
    by (simp add: share_group_with_user_def)
qed (rule check_do_unshare_group check_do_undo_group check_do_unshare_resource
    check_do_undo_resource)+

text \<open>
  The predicate alone does not decide the action: the only owner of resource 7 may share
  at VIEW, yet sharing at VIEW with themself is refused.
\<close>

theorem can_share_resource_counterexample:
  "can_share_resource resource_7 1 7 VIEW
   \<and> is_active (users resource_7 1)
   \<and> share_resource_with_user resource_7 1 7 1 VIEW
       = Inl (PermissionDenied ''Cannot remove last owner of resource'')"
  by (simp add: example_defs PrivilegeCodes can_share_resource_def get_combined_privilege_def
      share_resource_with_user_def share_resource_checks_def share_resource_upsert_def
      urp_get_or_create_def r_get_number_of_owners_def Let_def)

theorem predicate_action_pairs_witness:
  "\<not> can_share_resource resource_7 2 7 VIEW
   \<and> (\<exists>m. share_resource_with_user resource_7 2 7 3 VIEW = Inl (PermissionDenied m))
   \<and> can_share_resource resource_7 1 7 VIEW
   \<and> (\<exists>s'. share_resource_with_user resource_7 1 7 2 VIEW = Inr s')
   \<and> \<not> can_share_group group_5 2 5 VIEW
   \<and> (\<exists>m. share_group_with_user group_5 2 5 3 VIEW = Inl (PermissionDenied m))"
proof -
  have g: "\<not> can_share_group group_5 2 5 VIEW"
    by (simp add: group_5_def example_defs PrivilegeCodes can_share_group_def owns_group_def)
  have n: "\<not> can_share_resource resource_7 2 7 VIEW"
    by (simp add: example_defs PrivilegeCodes can_share_resource_def get_combined_privilege_def
        Let_def)
  have y: "can_share_resource resource_7 1 7 VIEW \<and> is_active (users resource_7 2)
      \<and> (get_combined_privilege resource_7 7 1 = OWNER \<or> VIEW \<le> get_combined_privilege resource_7 7 2)
      \<and> length [x \<leftarrow> urp resource_7. urp_resource x = 7 \<and> urp_user x = 2
                   \<and> urp_grantor x = Some 1] \<le> 1
      \<and> \<not> (\<exists>x \<in> set (urp resource_7). urp_resource x = 7 \<and> urp_user x = 2
              \<and> urp_grantor x = Some 1 \<and> urp_privilege x = OWNER
              \<and> VIEW \<noteq> OWNER \<and> r_get_number_of_owners resource_7 7 = 1)"
    by (simp add: example_defs PrivilegeCodes can_share_resource_def get_combined_privilege_def
        Let_def)
  from n predicate_action_pairs [where s = resource_7 and self = 2 and r = 7 and p = VIEW
      and u = 3, THEN conjunct1]
  have 1: "\<exists>m. share_resource_with_user resource_7 2 7 3 VIEW = Inl (PermissionDenied m)"
    by (rule rev_mp)
  from y predicate_action_pairs [where s = resource_7 and self = 1 and r = 7 and p = VIEW
      and u = 2, THEN conjunct2, THEN conjunct1]
  have 2: "\<exists>s'. share_resource_with_user resource_7 1 7 2 VIEW = Inr s'"
    by (rule rev_mp)
  from g predicate_action_pairs [where s = group_5 and self = 2 and g = 5 and p = VIEW
      and u = 3, THEN conjunct2, THEN conjunct2, THEN conjunct1]
  have 3: "\<exists>m. share_group_with_user group_5 2 5 3 VIEW = Inl (PermissionDenied m)"
    by (rule rev_mp)
  from n y g 1 2 3 show ?thesis by simp
qed

section \<open>The owner's override\<close>

lemma share_resource_upsert_Inr:
  assumes "share_resource_upsert s self r u p = Inr s2"
  shows "users s2 = users s"
    and "\<not> (urp_resource x = r \<and> urp_user x = u \<and> urp_grantor x = Some self)
           \<Longrightarrow> x \<in> set (urp s2) \<longleftrightarrow> x \<in> set (urp s)"
proof -
  from assms obtain row create s1 where
    g: "urp_get_or_create s r u (Some self) p = Inr (row, create, s1)"
    and s2: "s2 = (if \<not> create
                   then s1\<lparr>urp := save row (row\<lparr>urp_privilege := p\<rparr>) (urp s1)\<rparr>
                   else s1)"
    by (auto simp: share_resource_upsert_def split: sum.splits prod.splits if_splits)
  from urp_get_or_create_Inr [OF g] s2 show "users s2 = users s"
    by auto
  assume k: "\<not> (urp_resource x = r \<and> urp_user x = u \<and> urp_grantor x = Some self)"
  from urp_get_or_create_Inr [OF g]
  show "x \<in> set (urp s2) \<longleftrightarrow> x \<in> set (urp s)"
  proof
    assume "create \<and> [x \<leftarrow> urp s. urp_resource x = r \<and> urp_user x = u \<and> urp_grantor x = Some self] = []
            \<and> row = \<lparr>urp_privilege = p, urp_user = u, urp_resource = r, urp_grantor = Some self\<rparr>
            \<and> s1 = s\<lparr>urp := urp s @ [row]\<rparr>"
    with s2 k show ?thesis by auto
  next
    assume a: "\<not> create \<and> [x \<leftarrow> urp s. urp_resource x = r \<and> urp_user x = u \<and> urp_grantor x = Some self] = [row]
            \<and> s1 = s"
    then have "urp_resource row = r \<and> urp_user row = u \<and> urp_grantor row = Some self"
      using filter_singletonD(2) [of _ "urp s" row] by blast
    with a s2 k show ?thesis by (auto simp: set_save)
  qed
qed

lemma share_resource_Inr:
  assumes "share_resource_with_user s self r u p = Inr s'"
  obtains s2 where "share_resource_checks s self r u p = Inr ()"
    and "share_resource_upsert s self r u p = Inr s2"
    and "s' = share_resource_override s2 self r u p"
  using assms
  by (auto simp: share_resource_with_user_def split: sum.splits)

lemma share_resource_checks_active:
  "share_resource_checks s self r u p = Inr () \<Longrightarrow> is_active (users s self)"
  by (auto simp: share_resource_checks_def Let_def split: if_splits)

lemma share_resource_override_strong:
  assumes "share_resource_with_user s self r u p = Inr s'"
    and "is_superuser (users s self) \<or> owns_resource s self r \<and> u \<noteq> self"
  shows "\<forall>x \<in> set (urp s'). urp_resource x = r \<and> urp_user x = u \<longrightarrow> p \<le> urp_privilege x"
    and "\<forall>x \<in> set (urp s). urp_resource x = r \<and> urp_user x = u \<and> urp_grantor x \<noteq> Some self
            \<and> p \<le> urp_privilege x \<longrightarrow> x \<in> set (urp s')"
proof -
  from assms(1) obtain s2 where c: "share_resource_checks s self r u p = Inr ()"
    and u: "share_resource_upsert s self r u p = Inr s2"
    and o: "s' = share_resource_override s2 self r u p"
    by (rule share_resource_Inr)
  note rows = share_resource_upsert_Inr [OF u]
  have act: "is_active (users s2 self)"
    using share_resource_checks_active [OF c] rows(1) by simp
  have "is_superuser (users s2 self) \<or> owns_resource s2 self r"
  proof (cases "is_superuser (users s self)")
    case True
    then show ?thesis using rows(1) by simp
  next
    case False
    with assms(2) have ow: "owns_resource s self r" and ne: "u \<noteq> self" by simp_all
    from ow obtain x where x: "x \<in> set (urp s)" "urp_resource x = r" "urp_user x = self"
      "urp_privilege x = OWNER" by (auto simp: owns_resource_iff)
    with ne rows(2) [of x] have "x \<in> set (urp s2)" by simp
    with x show ?thesis by (auto simp: owns_resource_iff)
  qed
  with act o have s': "urp s' = [x \<leftarrow> urp s2. \<not> (urp_resource x = r \<and> urp_user x = u
                                       \<and> urp_privilege x < p)]"
    by (simp add: share_resource_override_def)
  then show "\<forall>x \<in> set (urp s'). urp_resource x = r \<and> urp_user x = u \<longrightarrow> p \<le> urp_privilege x"
    by auto
  show "\<forall>x \<in> set (urp s). urp_resource x = r \<and> urp_user x = u \<and> urp_grantor x \<noteq> Some self
            \<and> p \<le> urp_privilege x \<longrightarrow> x \<in> set (urp s')"
  proof (intro ballI impI)
    fix x assume "x \<in> set (urp s)"
      and k: "urp_resource x = r \<and> urp_user x = u \<and> urp_grantor x \<noteq> Some self \<and> p \<le> urp_privilege x"
    with rows(2) [of x] have "x \<in> set (urp s2)" by simp
    with k s' show "x \<in> set (urp s')" by simp
  qed
qed

lemma share_group_upsert_Inr:
  assumes "share_group_upsert s self g u p = Inr s2"
  shows "users s2 = users s" and "gaccess s2 = gaccess s"
    and "\<not> (ugp_group x = g \<and> ugp_user x = u \<and> ugp_grantor x = Some self)
           \<Longrightarrow> x \<in> set (ugp s2) \<longleftrightarrow> x \<in> set (ugp s)"
    and "\<lparr>ugp_privilege = p, ugp_user = u, ugp_group = g, ugp_grantor = Some self\<rparr>
           \<in> set (ugp s2)"
proof -
  let ?new = "\<lparr>ugp_privilege = p, ugp_user = u, ugp_group = g, ugp_grantor = Some self\<rparr>"
  from assms obtain row created s1 where
    g: "ugp_get_or_create s g u (Some self) p = Inr (row, created, s1)"
    and s2: "s2 = (if \<not> created
                   then s1\<lparr>ugp := save row (row\<lparr>ugp_privilege := p\<rparr>) (ugp s1)\<rparr>
                   else s1)"
    by (auto simp: share_group_upsert_def split: sum.splits prod.splits if_splits)
  from ugp_get_or_create_Inr [OF g] s2 show "users s2 = users s" "gaccess s2 = gaccess s"
    by auto
  from ugp_get_or_create_Inr [OF g]
  show "?new \<in> set (ugp s2)"
  proof
    assume "created \<and> [x \<leftarrow> ugp s. ugp_group x = g \<and> ugp_user x = u \<and> ugp_grantor x = Some self] = []
            \<and> row = ?new \<and> s1 = s\<lparr>ugp := ugp s @ [row]\<rparr>"
    with s2 show ?thesis by auto
  next
    assume a: "\<not> created \<and> [x \<leftarrow> ugp s. ugp_group x = g \<and> ugp_user x = u \<and> ugp_grantor x = Some self] = [row]
            \<and> s1 = s"
    then have "row \<in> set (ugp s)" "ugp_group row = g \<and> ugp_user row = u \<and> ugp_grantor row = Some self"
      using filter_singletonD [of _ "ugp s" row] by blast+
    moreover from this have "row\<lparr>ugp_privilege := p\<rparr> = ?new" by simp
    ultimately show ?thesis using a s2 by (simp add: set_save)
  qed
  assume k: "\<not> (ugp_group x = g \<and> ugp_user x = u \<and> ugp_grantor x = Some self)"
  from ugp_get_or_create_Inr [OF g]
  show "x \<in> set (ugp s2) \<longleftrightarrow> x \<in> set (ugp s)"
  proof
    assume "created \<and> [x \<leftarrow> ugp s. ugp_group x = g \<and> ugp_user x = u \<and> ugp_grantor x = Some self] = []
            \<and> row = ?new \<and> s1 = s\<lparr>ugp := ugp s @ [row]\<rparr>"
    with s2 k show ?thesis by auto
  next
    assume a: "\<not> created \<and> [x \<leftarrow> ugp s. ugp_group x = g \<and> ugp_user x = u \<and> ugp_grantor x = Some self] = [row]
            \<and> s1 = s"
    then have "ugp_group row = g \<and> ugp_user row = u \<and> ugp_grantor row = Some self"
      using filter_singletonD(2) [of _ "ugp s" row] by blast
    with a s2 k show ?thesis by (auto simp: set_save)
  qed
qed

lemma share_group_Inr:
  assumes "share_group_with_user s self g u p = Inr s'"
  obtains s2 where "share_group_checks s self g p = Inr ()"
    and "share_group_upsert s self g u p = Inr s2"
    and "s' = share_group_override s2 self g u p"
  using assms
  by (auto simp: share_group_with_user_def split: sum.splits)

lemma share_group_override_strong:
  assumes "share_group_with_user s self g u p = Inr s'"
    and "is_superuser (users s self) \<or> owns_group s self g \<and> u \<noteq> self"
  shows "\<forall>x \<in> set (ugp s'). ugp_group x = g \<and> ugp_user x = u \<longrightarrow> p \<le> ugp_privilege x"
    and "\<forall>x \<in> set (ugp s). ugp_group x = g \<and> ugp_user x = u \<and> ugp_grantor x \<noteq> Some self
            \<and> p \<le> ugp_privilege x \<longrightarrow> x \<in> set (ugp s')"
proof -
  from assms(1) obtain s2 where c: "share_group_checks s self g p = Inr ()"
    and u: "share_group_upsert s self g u p = Inr s2"
    and o: "s' = share_group_override s2 self g u p"
    by (rule share_group_Inr)
  note rows = share_group_upsert_Inr [OF u]
  have "owns_group s2 self g \<or> is_superuser (users s2 self)"
  proof (cases "is_superuser (users s self)")
    case True
    then show ?thesis using rows(1) by simp
  next
    case False
    with assms(2) have ow: "owns_group s self g" and ne: "u \<noteq> self" by simp_all
    from ow obtain x where x: "x \<in> set (ugp s)" "ugp_group x = g" "ugp_user x = self"
      "ugp_privilege x = OWNER" and act: "g_active (gaccess s g)" by (auto simp: owns_group_iff)
    with ne rows(3) [of x] have "x \<in> set (ugp s2)" by simp
    with x act rows(2) show ?thesis by (auto simp: owns_group_iff)
  qed
  with o have s': "ugp s' = [x \<leftarrow> ugp s2. \<not> (ugp_group x = g \<and> ugp_user x = u
                                       \<and> ugp_privilege x < p)]"
    by (simp add: share_group_override_def)
  then show "\<forall>x \<in> set (ugp s'). ugp_group x = g \<and> ugp_user x = u \<longrightarrow> p \<le> ugp_privilege x"
    by auto
  show "\<forall>x \<in> set (ugp s). ugp_group x = g \<and> ugp_user x = u \<and> ugp_grantor x \<noteq> Some self
            \<and> p \<le> ugp_privilege x \<longrightarrow> x \<in> set (ugp s')"
  proof (intro ballI impI)
    fix x assume "x \<in> set (ugp s)"
      and k: "ugp_group x = g \<and> ugp_user x = u \<and> ugp_grantor x \<noteq> Some self \<and> p \<le> ugp_privilege x"
    with rows(3) [of x] have "x \<in> set (ugp s2)" by simp
    with k s' show "x \<in> set (ugp s')" by simp
  qed
qed

text \<open>
  Claim C3, as the code has it. After a superuser, or an owner sharing with another
  user, has granted privilege p, no record for that user over the object with a
  privilege stronger than p (a lower number) is left; the records of other grantors that
  are not stronger than p stay. This holds for resources and for groups.
\<close>

theorem owner_override_removes_stronger:
  "(share_resource_with_user s self r u p = Inr s'
      \<and> (is_superuser (users s self) \<or> owns_resource s self r \<and> u \<noteq> self)
    \<longrightarrow> (\<forall>x \<in> set (urp s'). urp_resource x = r \<and> urp_user x = u \<longrightarrow> p \<le> urp_privilege x)
      \<and> (\<forall>x \<in> set (urp s). urp_resource x = r \<and> urp_user x = u
            \<and> urp_grantor x \<noteq> Some self \<and> p \<le> urp_privilege x \<longrightarrow> x \<in> set (urp s')))
   \<and> (share_group_with_user t self g u p = Inr t'
      \<and> (is_superuser (users t self) \<or> owns_group t self g \<and> u \<noteq> self)
    \<longrightarrow> (\<forall>x \<in> set (ugp t'). ugp_group x = g \<and> ugp_user x = u \<longrightarrow> p \<le> ugp_privilege x)
      \<and> (\<forall>x \<in> set (ugp t). ugp_group x = g \<and> ugp_user x = u
            \<and> ugp_grantor x \<noteq> Some self \<and> p \<le> ugp_privilege x \<longrightarrow> x \<in> set (ugp t')))"
  using share_resource_override_strong [of s self r u p s']
    share_group_override_strong [of t self g u p t']
  by blast

text \<open>
  The claim has the override delete the weaker records. Owner 1 grants CHANGE to user 2,
  who holds VIEW from user 3: the VIEW record is still there.
\<close>

theorem owner_override_counterexample:
  "owns_resource two_grantors_db 1 7
   \<and> map_sum id urp (share_resource_with_user two_grantors_db 1 7 2 CHANGE) = Inr
     [\<lparr>urp_privilege = OWNER, urp_user = 1, urp_resource = 7, urp_grantor = Some 1\<rparr>,
      \<lparr>urp_privilege = VIEW, urp_user = 3, urp_resource = 7, urp_grantor = Some 1\<rparr>,
      \<lparr>urp_privilege = VIEW, urp_user = 2, urp_resource = 7, urp_grantor = Some 3\<rparr>,
      \<lparr>urp_privilege = CHANGE, urp_user = 2, urp_resource = 7, urp_grantor = Some 1\<rparr>]"
  by (simp add: two_grantors_db_def example_defs PrivilegeCodes share_resource_defs Let_def)

theorem owner_override_removes_stronger_witness:
  "share_resource_with_user two_grantors_db 1 7 2 CHANGE = Inr two_grantors_after
   \<and> owns_resource two_grantors_db 1 7
   \<and> \<not> (\<exists>x \<in> set (urp two_grantors_after). urp_resource x = 7 \<and> urp_user x = 2
           \<and> urp_privilege x < CHANGE)
   \<and> share_group_with_user group_5_shared 1 5 2 CHANGE = Inr group_5_shared_after
   \<and> owns_group group_5_shared 1 5
   \<and> \<not> (\<exists>x \<in> set (ugp group_5_shared_after). ugp_group x = 5 \<and> ugp_user x = 2
           \<and> ugp_privilege x < CHANGE)"
proof -
  have r: "share_resource_with_user two_grantors_db 1 7 2 CHANGE = Inr two_grantors_after"
    by (simp add: two_grantors_db_def two_grantors_after_def example_defs PrivilegeCodes share_resource_defs
        Let_def)
  have ro: "owns_resource two_grantors_db 1 7 \<and> (2::nat) \<noteq> 1"
    by (simp add: two_grantors_db_def example_defs PrivilegeCodes owns_resource_def)
  have g: "share_group_with_user group_5_shared 1 5 2 CHANGE = Inr group_5_shared_after"
    by (simp add: group_5_shared_def group_5_shared_after_def example_defs PrivilegeCodes
        share_group_defs Let_def)
  have go: "owns_group group_5_shared 1 5 \<and> (2::nat) \<noteq> 1"
    by (simp add: group_5_shared_def example_defs PrivilegeCodes owns_group_def)
  from r ro g go
    owner_override_removes_stronger [where s = two_grantors_db and self = 1 and r = 7 and u = 2
      and p = CHANGE and s' = two_grantors_after and t = group_5_shared and g = 5
      and t' = group_5_shared_after]
  show ?thesis by (simp add: not_less)
qed

section \<open>The owner floor\<close>

text \<open>
  Claim C2. The claim asks every sequence of share, unshare and undo operations to leave
  each group and resource with an owner. Three shares from the bootstrap state end with
  no owner, for a group and for a resource alike: user 1 makes user 2 an owner, user 2
  grants VIEW to user 1 (the override deletes the OWNER record of user 1), and user 2,
  now the only owner, grants VIEW to themself (the override deletes their own OWNER
  record, which user 1 had granted).
\<close>

theorem owner_floor_lost_by_override:
  "share_group_with_user group_5 1 5 2 OWNER = Inr group_5_a
   \<and> share_group_with_user group_5_a 2 5 1 VIEW = Inr group_5_b
   \<and> share_group_with_user group_5_b 2 5 2 VIEW = Inr group_5_c
   \<and> g_get_number_of_owners group_5_b 5 = 1
   \<and> g_get_number_of_owners group_5_c 5 = 0
   \<and> share_resource_with_user resource_7 1 7 2 OWNER = Inr resource_7_a
   \<and> share_resource_with_user resource_7_a 2 7 1 VIEW = Inr resource_7_b
   \<and> share_resource_with_user resource_7_b 2 7 2 VIEW = Inr resource_7_c
   \<and> r_get_number_of_owners resource_7_b 7 = 1
   \<and> r_get_number_of_owners resource_7_c 7 = 0"
proof (intro conjI)
  show "share_group_with_user group_5 1 5 2 OWNER = Inr group_5_a"
    by (simp add: example_defs sequence_defs PrivilegeCodes share_group_defs Let_def)
  show "share_group_with_user group_5_a 2 5 1 VIEW = Inr group_5_b"
    by (simp add: example_defs sequence_defs PrivilegeCodes share_group_defs Let_def)
  show "share_group_with_user group_5_b 2 5 2 VIEW = Inr group_5_c"
    by (simp add: example_defs sequence_defs PrivilegeCodes share_group_defs Let_def)
  show "g_get_number_of_owners group_5_b 5 = 1"
    by (simp add: example_defs sequence_defs PrivilegeCodes g_get_number_of_owners_def)
  show "g_get_number_of_owners group_5_c 5 = 0"
    by (simp add: example_defs sequence_defs PrivilegeCodes g_get_number_of_owners_def)
  show "share_resource_with_user resource_7 1 7 2 OWNER = Inr resource_7_a"
    by (simp add: example_defs sequence_defs PrivilegeCodes share_resource_defs Let_def)
  show "share_resource_with_user resource_7_a 2 7 1 VIEW = Inr resource_7_b"
    by (simp add: example_defs sequence_defs PrivilegeCodes share_resource_defs Let_def)
  show "share_resource_with_user resource_7_b 2 7 2 VIEW = Inr resource_7_c"
    by (simp add: example_defs sequence_defs PrivilegeCodes share_resource_defs Let_def)
  show "r_get_number_of_owners resource_7_b 7 = 1"
    by (simp add: example_defs sequence_defs PrivilegeCodes r_get_number_of_owners_def)
  show "r_get_number_of_owners resource_7_c 7 = 0"
    by (simp add: example_defs sequence_defs PrivilegeCodes r_get_number_of_owners_def)
qed

section \<open>Undoing a share\<close>

text \<open>
  Claim C4. The claim asks an undo without a grantor to delete the caller's record for
  the user. undo\_share\_group\_with\_user reports success and deletes nothing: user 2
  keeps the VIEW record that user 1 granted. undo\_share\_resource\_with\_user, on the
  same records over a resource, deletes it.
\<close>

theorem undo_share_group_keeps_grant:
  "undo_share_group_with_user group_5_shared 1 5 2 None = Inr (True, group_5_shared)
   \<and> ugp group_5_shared =
       [\<lparr>ugp_privilege = OWNER, ugp_user = 1, ugp_group = 5, ugp_grantor = Some 1\<rparr>,
        \<lparr>ugp_privilege = VIEW, ugp_user = 2, ugp_group = 5, ugp_grantor = Some 1\<rparr>]
   \<and> map_sum id (\<lambda>(b, s). (b, urp s)) (undo_share_resource_with_user resource_7_shared 1 7 2 None)
       = Inr (True, [\<lparr>urp_privilege = OWNER, urp_user = 1, urp_resource = 7,
                       urp_grantor = Some 1\<rparr>])"
  by (simp add: group_5_shared_def resource_7_shared_def example_defs PrivilegeCodes undo_defs)

text \<open>
  Claim C5, as the code has it for resources. When the caller has granted the user a
  record over the resource and that record is not OWNER, or some other user holds OWNER,
  undo\_share\_resource\_with\_user without a grantor succeeds and deletes the record, and
  calling it again raises PermissionDenied("No share to undo"). When the record is OWNER
  and no other user holds OWNER, the first call raises
  PermissionDenied("Cannot remove sole resource owner").
\<close>

theorem undo_share_resource_twice:
  "([x \<leftarrow> urp s. urp_resource x = r \<and> urp_user x = u \<and> urp_grantor x = Some self] = [e]
      \<and> (urp_privilege e \<noteq> OWNER
           \<or> (\<exists>x \<in> set (urp s). urp_resource x = r \<and> urp_privilege x = OWNER
                 \<and> urp_user x \<noteq> u))
    \<longrightarrow> (\<exists>s'. undo_share_resource_with_user s self r u None = Inr (True, s')
           \<and> urp s' = [x \<leftarrow> urp s. \<not> (urp_resource x = r \<and> urp_user x = u
                                       \<and> urp_grantor x = Some self)]
           \<and> undo_share_resource_with_user s' self r u None
               = Inl (PermissionDenied ''No share to undo'')))
   \<and> ([x \<leftarrow> urp s. urp_resource x = r \<and> urp_user x = u \<and> urp_grantor x = Some self] = [e]
      \<and> urp_privilege e = OWNER
      \<and> \<not> (\<exists>x \<in> set (urp s). urp_resource x = r \<and> urp_privilege x = OWNER
                 \<and> urp_user x \<noteq> u)
    \<longrightarrow> undo_share_resource_with_user s self r u None
          = Inl (PermissionDenied ''Cannot remove sole resource owner''))"
proof (intro conjI impI)
  assume a: "[x \<leftarrow> urp s. urp_resource x = r \<and> urp_user x = u \<and> urp_grantor x = Some self] = [e]
      \<and> (urp_privilege e \<noteq> OWNER
           \<or> (\<exists>x \<in> set (urp s). urp_resource x = r \<and> urp_privilege x = OWNER
                 \<and> urp_user x \<noteq> u))"
  let ?s' = "s\<lparr>urp := [x \<leftarrow> urp s. \<not> (urp_resource x = r \<and> urp_user x = u
                                       \<and> urp_grantor x = Some self)]\<rparr>"
  from a have other: "urp_privilege e \<noteq> OWNER
      \<or> [x \<leftarrow> urp s. urp_resource x = r \<and> urp_privilege x = OWNER
             \<and> \<not> (urp_resource x = r \<and> urp_user x = u)] \<noteq> []"
    by (auto simp: filter_empty_conv)
  with a have 1: "undo_share_resource_with_user s self r u None = Inr (True, ?s')"
    by (simp add: undo_share_resource_with_user_def handle_undo_share_resource_with_user_def)
  have "[x \<leftarrow> urp ?s'. urp_resource x = r \<and> urp_user x = u \<and> urp_grantor x = Some self] = []"
    by (simp add: filter_empty_conv)
  then have 2: "undo_share_resource_with_user ?s' self r u None
               = Inl (PermissionDenied ''No share to undo'')"
    by (simp add: undo_share_resource_with_user_def handle_undo_share_resource_with_user_def
        deny_def)
  from 1 2 show "\<exists>s'. undo_share_resource_with_user s self r u None = Inr (True, s')
           \<and> urp s' = [x \<leftarrow> urp s. \<not> (urp_resource x = r \<and> urp_user x = u
                                       \<and> urp_grantor x = Some self)]
           \<and> undo_share_resource_with_user s' self r u None
               = Inl (PermissionDenied ''No share to undo'')"
    by (intro exI [of _ ?s']) simp
next
  assume a: "[x \<leftarrow> urp s. urp_resource x = r \<and> urp_user x = u \<and> urp_grantor x = Some self] = [e]
      \<and> urp_privilege e = OWNER
      \<and> \<not> (\<exists>x \<in> set (urp s). urp_resource x = r \<and> urp_privilege x = OWNER
                 \<and> urp_user x \<noteq> u)"
  then have "[x \<leftarrow> urp s. urp_resource x = r \<and> urp_privilege x = OWNER
             \<and> \<not> (urp_resource x = r \<and> urp_user x = u)] = []"
    by (auto simp: filter_empty_conv)
  with a show "undo_share_resource_with_user s self r u None
          = Inl (PermissionDenied ''Cannot remove sole resource owner'')"
    by (simp add: undo_share_resource_with_user_def handle_undo_share_resource_with_user_def
        deny_def)
qed

text \<open>
  The claim has the first call succeed for every record. The record of the only owner
  is refused.
\<close>

theorem undo_share_sole_owner_counterexample:
  "urp resource_7 = [\<lparr>urp_privilege = OWNER, urp_user = 1, urp_resource = 7,
                       urp_grantor = Some 1\<rparr>]
   \<and> undo_share_resource_with_user resource_7 1 7 1 None
       = Inl (PermissionDenied ''Cannot remove sole resource owner'')"
  by (simp add: example_defs PrivilegeCodes undo_defs)

theorem undo_share_resource_twice_witness:
  "(\<exists>s'. undo_share_resource_with_user resource_7_shared 1 7 2 None = Inr (True, s')
       \<and> urp s' = [\<lparr>urp_privilege = OWNER, urp_user = 1, urp_resource = 7,
                     urp_grantor = Some 1\<rparr>]
       \<and> undo_share_resource_with_user s' 1 7 2 None
           = Inl (PermissionDenied ''No share to undo''))
   \<and> undo_share_resource_with_user resource_7 1 7 1 None
       = Inl (PermissionDenied ''Cannot remove sole resource owner'')"
proof -
  let ?e = "\<lparr>urp_privilege = VIEW, urp_user = 2, urp_resource = 7, urp_grantor = Some 1\<rparr>"
  let ?o = "\<lparr>urp_privilege = OWNER, urp_user = 1, urp_resource = 7, urp_grantor = Some 1\<rparr>"
  have a: "[x \<leftarrow> urp resource_7_shared. urp_resource x = 7 \<and> urp_user x = 2
              \<and> urp_grantor x = Some 1] = [?e] \<and> urp_privilege ?e \<noteq> OWNER"
    by (simp add: resource_7_shared_def example_defs PrivilegeCodes)
  have f: "[x \<leftarrow> urp resource_7_shared. \<not> (urp_resource x = 7 \<and> urp_user x = 2
              \<and> urp_grantor x = Some 1)] = [?o]"
    by (simp add: resource_7_shared_def example_defs PrivilegeCodes)
  have b: "[x \<leftarrow> urp resource_7. urp_resource x = 7 \<and> urp_user x = 1
              \<and> urp_grantor x = Some 1] = [?o] \<and> urp_privilege ?o = OWNER
           \<and> \<not> (\<exists>x \<in> set (urp resource_7). urp_resource x = 7 \<and> urp_privilege x = OWNER
                 \<and> urp_user x \<noteq> 1)"
    by (simp add: example_defs PrivilegeCodes)
  from a f undo_share_resource_twice [where s = resource_7_shared and self = 1 and r = 7 and u = 2
      and e = "?e"]
  have 1: "\<exists>s'. undo_share_resource_with_user resource_7_shared 1 7 2 None = Inr (True, s')
       \<and> urp s' = [?o]
       \<and> undo_share_resource_with_user s' 1 7 2 None
           = Inl (PermissionDenied ''No share to undo'')"
    by auto
  from b undo_share_resource_twice [where s = resource_7 and self = 1 and r = 7 and u = 1
      and e = "?o"]
  have 2: "undo_share_resource_with_user resource_7 1 7 1 None
       = Inl (PermissionDenied ''Cannot remove sole resource owner'')"
    by blast
  from 1 2 show ?thesis by blast
qed

section \<open>Sharing with an inactive user\<close>




lemma owns_group_users [simp]: "owns_group (s\<lparr>users := U\<rparr>) self g = owns_group s self g"
  by (simp add: owns_group_def)

lemma g_owners_users [simp]:
  "g_get_number_of_owners (s\<lparr>users := U\<rparr>) g = g_get_number_of_owners s g"
  by (simp add: g_get_number_of_owners_def)










end
